theory Spec2Isabelle
  imports Main
begin

section \<open>Declarations the checker imports\<close>

text \<open>
  \<^verbatim>\<open>FieldType\<close> is the numeric enum of \<^verbatim>\<open>TFS/WorkItemTracking/Contracts\<close>. The sources
  name ten of its members; any further member is \<open>FieldType_Other n\<close>.
\<close>

datatype FieldType =
    FieldType_String | FieldType_Integer | FieldType_DateTime | FieldType_PlainText
  | FieldType_Html | FieldType_TreePath | FieldType_History | FieldType_Double
  | FieldType_Guid | FieldType_Boolean | FieldType_Other nat

text \<open>
  The classes of \<^verbatim>\<open>Symbols\<close> that the sources use as constructor identities
  (\<^verbatim>\<open>Function\<close> values). Their declarations are imported, so the classes are taken to be
  unrelated by inheritance: \<^verbatim>\<open>x instanceof C\<close> holds exactly when \<open>C\<close> is the class of
  \<open>x\<close>. \<^verbatim>\<open>Symbols.Field\<close> is the one syntax-tree class tested; it is a constructor of
  \<open>symbol\<close> below.
\<close>

datatype symclass =
    Symbols_Equals | Symbols_NotEquals | Symbols_GreaterThan | Symbols_LessThan
  | Symbols_GreaterOrEq | Symbols_LessOrEq | Symbols_InGroup | Symbols_Ever
  | Symbols_Contains | Symbols_ContainsWords | Symbols_Under | Symbols_In
  | Symbols_Number | Symbols_String | Symbols_Variable | Symbols_True | Symbols_False
  | Symbols_Group | Symbols_Other nat

record token =
  cls :: symclass
  tokenText :: string
  endColumn :: int

record Field =
  ident :: token

text \<open>
  What a \<^verbatim>\<open>Value\<close> wraps, and what a decoration marks: a token or a \<^verbatim>\<open>Symbols.Field\<close>
  node. Of any other node the checker reads its class only, so it is a token of class
  \<open>Symbols_Other n\<close> here.
\<close>

datatype symbol = Tok token | Fld Field

fun instanceof :: "symbol \<Rightarrow> symclass \<Rightarrow> bool" where
  "instanceof (Tok t) c = (cls t = c)"
| "instanceof (Fld f) c = False"

fun instanceof_Field :: "symbol \<Rightarrow> bool" where
  "instanceof_Field (Tok t) = False"
| "instanceof_Field (Fld f) = True"

text \<open>The narrowing of \<^verbatim>\<open>value.value instanceof Symbols.Variable\<close>: the variable token, if it is one.\<close>

fun asVariable :: "symbol \<Rightarrow> token option" where
  "asVariable (Tok t) = (if cls t = Symbols_Variable then Some t else None)"
| "asVariable (Fld f) = None"

record Value =
  val :: symbol

datatype ValueList = ValueList Value "ValueList option"

record ConditionalOperator =
  conditionToken :: token

text \<open>
  A \<^verbatim>\<open>ConditionalExpression\<close> or \<^verbatim>\<open>LinkCondition\<close> node, with the five optional children
  that \<^verbatim>\<open>check\<close> reads.
\<close>

record condition =
  cond_field :: "Field option"
  conditionalOperator :: "ConditionalOperator option"
  cond_value :: "Value option"
  valueList :: "ValueList option"
  inOperator :: "token option"

record WorkItemField =
  name :: string
  referenceName :: string
  type :: FieldType

text \<open>A decoration is the symbol it marks and its message.\<close>

datatype decoration = toDecoration symbol string

datatype error = TypeError | UnexpectedFieldType "FieldType option"

text \<open>
  What the sources call and do not define: the locale's lower-casing of strings,
  \<^verbatim>\<open>Symbols.getSymbolName\<close>, the table \<^verbatim>\<open>definedVariables\<close> (an object; its keys in
  insertion order) and the names of the enum members the sources do not mention.
\<close>

record externals =
  toLocaleLowerCase :: "string \<Rightarrow> string"
  getSymbolName :: "symclass \<Rightarrow> string"
  definedVariables :: "(string \<times> FieldType) list"
  otherFieldTypeName :: "nat \<Rightarrow> string"

text \<open>
  The reverse mapping \<^verbatim>\<open>FieldType[t]\<close> of the enum, as a template string prints it;
  \<open>None\<close> is \<^verbatim>\<open>undefined\<close>.
\<close>

fun FieldType_name :: "externals \<Rightarrow> FieldType option \<Rightarrow> string" where
  "FieldType_name x (Some FieldType_String) = ''String''"
| "FieldType_name x (Some FieldType_Integer) = ''Integer''"
| "FieldType_name x (Some FieldType_DateTime) = ''DateTime''"
| "FieldType_name x (Some FieldType_PlainText) = ''PlainText''"
| "FieldType_name x (Some FieldType_Html) = ''Html''"
| "FieldType_name x (Some FieldType_TreePath) = ''TreePath''"
| "FieldType_name x (Some FieldType_History) = ''History''"
| "FieldType_name x (Some FieldType_Double) = ''Double''"
| "FieldType_name x (Some FieldType_Guid) = ''Guid''"
| "FieldType_name x (Some FieldType_Boolean) = ''Boolean''"
| "FieldType_name x (Some (FieldType_Other n)) = otherFieldTypeName x n"
| "FieldType_name x None = ''undefined''"

text \<open>\<^verbatim>\<open>Array.prototype.join\<close> on strings.\<close>

fun join :: "string \<Rightarrow> string list \<Rightarrow> string" where
  "join sep [] = []"
| "join sep [s] = s"
| "join sep (s # ss) = s @ sep @ join sep ss"

section \<open>The comparison table\<close>

record IComparisonType =
  fieldType :: FieldType
  literal :: "symclass list"
  field :: "symclass list"
  group :: "symclass list"

text \<open>
  \<^verbatim>\<open>addCompTypes\<close> writes into the module's table \<^verbatim>\<open>compTypes\<close>; here it takes the table
  and returns it updated. The parameters come in the source's order: literal, group, field.
\<close>

fun addCompTypes ::
  "FieldType list \<Rightarrow> symclass list \<Rightarrow> symclass list \<Rightarrow> symclass list \<Rightarrow>
   (FieldType \<rightharpoonup> IComparisonType) \<Rightarrow> (FieldType \<rightharpoonup> IComparisonType)" where
  "addCompTypes [] lit grp fld tbl = tbl"
| "addCompTypes (ft # types) lit grp fld tbl =
     addCompTypes types lit grp fld
       (tbl(ft \<mapsto> \<lparr>fieldType = ft, literal = lit, field = fld, group = grp\<rparr>))"

definition compTypes :: "FieldType \<rightharpoonup> IComparisonType" where
  "compTypes =
    addCompTypes [FieldType_TreePath]
      [Symbols_Equals, Symbols_NotEquals, Symbols_Under]
      [Symbols_In]
      []
   (addCompTypes [FieldType_Boolean]
      [Symbols_Equals, Symbols_NotEquals, Symbols_Ever]
      []
      [Symbols_Equals, Symbols_NotEquals]
   (addCompTypes [FieldType_String]
      [Symbols_Equals, Symbols_NotEquals, Symbols_GreaterThan, Symbols_LessThan,
       Symbols_GreaterOrEq, Symbols_LessOrEq, Symbols_Ever, Symbols_Contains, Symbols_InGroup]
      [Symbols_In]
      [Symbols_Equals, Symbols_NotEquals, Symbols_GreaterThan, Symbols_LessThan,
       Symbols_GreaterOrEq, Symbols_LessOrEq]
   (addCompTypes [FieldType_Double, FieldType_Integer, FieldType_DateTime, FieldType_Guid]
      [Symbols_Equals, Symbols_NotEquals, Symbols_GreaterThan, Symbols_LessThan,
       Symbols_GreaterOrEq, Symbols_LessOrEq, Symbols_Ever]
      [Symbols_In]
      [Symbols_Equals, Symbols_NotEquals, Symbols_GreaterThan, Symbols_LessThan,
       Symbols_GreaterOrEq, Symbols_LessOrEq]
   (addCompTypes [FieldType_Html, FieldType_PlainText, FieldType_History]
      [Symbols_Contains, Symbols_ContainsWords] [] []
    Map.empty))))"

section \<open>The field lookup\<close>

text \<open>
  \<^verbatim>\<open>IFieldLookup\<close> is an object literal used as a dictionary. The map holds its own
  properties. A key can hold \<^verbatim>\<open>undefined\<close> (\<open>Some None\<close>): \<^verbatim>\<open>compTypes[field.type]\<close> is
  stored as it is, also for a type the table lacks.

  The object has inherited properties too, and \<^verbatim>\<open>in\<close> and \<^verbatim>\<open>fieldLookup[key]\<close> find
  them: those of \<^verbatim>\<open>Object.prototype\<close>, and the four properties of an entry once that
  entry has become the object's prototype. It becomes so by an assignment to the key
  \<^verbatim>\<open>__proto__\<close>, an accessor of \<^verbatim>\<open>Object.prototype\<close>: assigning an object sets the
  prototype and makes no own property, assigning \<^verbatim>\<open>undefined\<close> does nothing. The map
  keeps such an entry under the key \<^verbatim>\<open>__proto__\<close>, which is what reading that key returns.
\<close>

type_synonym IFieldLookup = "string \<rightharpoonup> IComparisonType option"

definition Object_prototype_keys :: "string list" where
  "Object_prototype_keys =
     [''constructor'', ''__defineGetter__'', ''__defineSetter__'', ''hasOwnProperty'',
      ''__lookupGetter__'', ''__lookupSetter__'', ''isPrototypeOf'', ''propertyIsEnumerable'',
      ''toString'', ''valueOf'', ''__proto__'', ''toLocaleString'']"

definition IComparisonType_keys :: "string list" where
  "IComparisonType_keys = [''fieldType'', ''field'', ''group'', ''literal'']"

text \<open>\<^verbatim>\<open>key in fieldLookup\<close>: an own key or an inherited one.\<close>

definition key_in_lookup :: "IFieldLookup \<Rightarrow> string \<Rightarrow> bool" where
  "key_in_lookup fieldLookup key =
     (fieldLookup key \<noteq> None
      \<or> key \<in> set Object_prototype_keys
      \<or> (case fieldLookup ''__proto__'' of
            Some (Some entry) \<Rightarrow> key \<in> set IComparisonType_keys
          | _ \<Rightarrow> False))"

text \<open>
  What \<^verbatim>\<open>fieldLookup[key]\<close> reads: \<^verbatim>\<open>undefined\<close>, an entry, or an inherited value (a
  function, \<^verbatim>\<open>Object.prototype\<close>, or the number or array that a property of the prototype
  entry holds). Of an inherited value the properties \<^verbatim>\<open>fieldType\<close>, \<^verbatim>\<open>literal\<close>,
  \<^verbatim>\<open>field\<close> and \<^verbatim>\<open>group\<close> read as \<^verbatim>\<open>undefined\<close>; reading a property of
  \<^verbatim>\<open>undefined\<close> raises a TypeError.
\<close>

datatype lookupValue = Undefined | Entry IComparisonType | Inherited

definition lookup_read :: "IFieldLookup \<Rightarrow> string \<Rightarrow> lookupValue" where
  "lookup_read fieldLookup key =
     (case fieldLookup key of
        Some (Some entry) \<Rightarrow> Entry entry
      | Some None \<Rightarrow> Undefined
      | None \<Rightarrow> if key_in_lookup fieldLookup key then Inherited else Undefined)"

text \<open>\<^verbatim>\<open>fieldLookup[key] = v\<close>.\<close>

definition lookup_assign ::
  "IFieldLookup \<Rightarrow> string \<Rightarrow> IComparisonType option \<Rightarrow> IFieldLookup" where
  "lookup_assign fieldLookup key v =
     (if key = ''__proto__'' \<and> v = None then fieldLookup else fieldLookup(key \<mapsto> v))"

text \<open>\<^verbatim>\<open>fieldLookup[key].fieldType\<close>, given what \<^verbatim>\<open>fieldLookup[key]\<close> read.\<close>

fun read_fieldType :: "lookupValue \<Rightarrow> error + FieldType option" where
  "read_fieldType Undefined = Inl TypeError"
| "read_fieldType (Entry entry) = Inr (Some (fieldType entry))"
| "read_fieldType Inherited = Inr None"

definition linkTypeComparison :: IComparisonType where
  "linkTypeComparison =
     \<lparr>fieldType = FieldType_String, literal = [Symbols_Equals, Symbols_NotEquals],
      field = [], group = []\<rparr>"

fun getFieldComparisonLookup_loop ::
  "externals \<Rightarrow> WorkItemField list \<Rightarrow> IFieldLookup \<Rightarrow> IFieldLookup" where
  "getFieldComparisonLookup_loop x [] fieldLookup = fieldLookup"
| "getFieldComparisonLookup_loop x (f # flds) fieldLookup =
     (if ''System.Links.LinkType'' = referenceName f then
        getFieldComparisonLookup_loop x flds
          (lookup_assign
            (lookup_assign fieldLookup
               (toLocaleLowerCase x (referenceName f)) (Some linkTypeComparison))
            (toLocaleLowerCase x (name f)) (Some linkTypeComparison))
      else
        getFieldComparisonLookup_loop x flds
          (lookup_assign
            (lookup_assign fieldLookup
               (toLocaleLowerCase x (referenceName f)) (compTypes (type f)))
            (toLocaleLowerCase x (name f)) (compTypes (type f))))"

definition getFieldComparisonLookup :: "externals \<Rightarrow> WorkItemField list \<Rightarrow> IFieldLookup" where
  "getFieldComparisonLookup x flds = getFieldComparisonLookup_loop x flds Map.empty"

section \<open>The type error checker\<close>

datatype rhsType = Rhs_literal | Rhs_field

fun rhsType_string :: "rhsType \<Rightarrow> string" where
  "rhsType_string Rhs_literal = ''literal''"
| "rhsType_string Rhs_field = ''field''"

fun rhsOps :: "IComparisonType \<Rightarrow> rhsType \<Rightarrow> symclass list" where
  "rhsOps entry Rhs_literal = literal entry"
| "rhsOps entry Rhs_field = field entry"

text \<open>
  \<^verbatim>\<open>validOps\<close> is \<^verbatim>\<open>undefined\<close> when \<^verbatim>\<open>fieldLookup[key]\<close> is an inherited value, and
  \<^verbatim>\<open>validOps.length\<close> then raises a TypeError.
\<close>

definition checkComparisonOperator ::
  "externals \<Rightarrow> IFieldLookup \<Rightarrow> ConditionalOperator \<Rightarrow> Field \<Rightarrow> rhsType \<Rightarrow>
   error + decoration list" where
  "checkComparisonOperator x fieldLookup compOp fld rhs =
     (let operatorToken = conditionToken compOp in
      case lookup_read fieldLookup (toLocaleLowerCase x (tokenText (ident fld))) of
        Undefined \<Rightarrow> Inl TypeError
      | Inherited \<Rightarrow> Inl TypeError
      | Entry entry \<Rightarrow>
          (let validOps = rhsOps entry rhs in
           if length validOps = 0 then
             Inr [toDecoration (Tok operatorToken)
                   (''There is no valid operation for '' @ tokenText (ident fld)
                      @ '' and '' @ rhsType_string rhs)]
           else if length (filter (\<lambda>op. instanceof (Tok operatorToken) op) validOps) = 0 then
             Inr [toDecoration (Tok operatorToken)
                   (''Valid comparisons are '' @ join '', '' (map (getSymbolName x) validOps))]
           else Inr []))"

definition checkAllowsGroup ::
  "externals \<Rightarrow> IFieldLookup \<Rightarrow> token \<Rightarrow> Field \<Rightarrow> error + decoration list" where
  "checkAllowsGroup x fieldLookup compOp fld =
     (case lookup_read fieldLookup (toLocaleLowerCase x (tokenText (ident fld))) of
        Undefined \<Rightarrow> Inl TypeError
      | Inherited \<Rightarrow> Inl TypeError
      | Entry entry \<Rightarrow>
          (let validOps = group entry in
           if length validOps = 0 then
             Inr [toDecoration (Tok compOp)
                   (tokenText (ident fld) @ '' does not support group comparisons'')]
           else if length (filter (\<lambda>op. instanceof (Tok compOp) op) validOps) = 0 then
             Inr [toDecoration (Tok compOp)
                   (''Valid comparisons are '' @ join '', '' (map (getSymbolName x) validOps))]
           else Inr []))"

text \<open>
  A field type that can be \<^verbatim>\<open>undefined\<close> is a \<open>FieldType option\<close>, \<open>None\<close> for
  \<^verbatim>\<open>undefined\<close>: the type of a variable missing from the table, and the expected type
  that \<^verbatim>\<open>check\<close> reads from an inherited value.
\<close>

fun mapType :: "FieldType option \<Rightarrow> symclass" where
  "mapType (Some FieldType_Integer) = Symbols_Number"
| "mapType (Some FieldType_Double) = Symbols_Number"
| "mapType _ = Symbols_String"

definition checkRhsValue ::
  "externals \<Rightarrow> Value \<Rightarrow> FieldType option \<Rightarrow> error + decoration list" where
  "checkRhsValue x v expectedType =
     (let symbolType = mapType expectedType;
          err = toDecoration (val v) (''Expected value of type '' @ getSymbolName x symbolType)
      in case asVariable (val v) of
        Some var \<Rightarrow>
          (let varType = mapType (map_of (definedVariables x)
                                    (toLocaleLowerCase x (tokenText var)))
           in Inr (if varType = symbolType then [] else [err]))
      | None \<Rightarrow>
          (case expectedType of
             Some FieldType_String \<Rightarrow> Inr (if instanceof (val v) symbolType then [] else [err])
           | Some FieldType_Integer \<Rightarrow> Inr (if instanceof (val v) symbolType then [] else [err])
           | Some FieldType_DateTime \<Rightarrow> Inr (if instanceof (val v) symbolType then [] else [err])
           | Some FieldType_PlainText \<Rightarrow> Inr (if instanceof (val v) symbolType then [] else [err])
           | Some FieldType_Html \<Rightarrow> Inr (if instanceof (val v) symbolType then [] else [err])
           | Some FieldType_TreePath \<Rightarrow> Inr (if instanceof (val v) symbolType then [] else [err])
           | Some FieldType_History \<Rightarrow> Inr (if instanceof (val v) symbolType then [] else [err])
           | Some FieldType_Double \<Rightarrow> Inr (if instanceof (val v) symbolType then [] else [err])
           | Some FieldType_Guid \<Rightarrow> Inr (if instanceof (val v) symbolType then [] else [err])
           | Some FieldType_Boolean \<Rightarrow>
               Inr (if instanceof (val v) Symbols_True \<or> instanceof (val v) Symbols_False
                    then []
                    else [toDecoration (val v) ''Expected value of type BOOLEAN''])
           | Some (FieldType_Other n) \<Rightarrow> Inl (UnexpectedFieldType expectedType)
           | None \<Rightarrow> Inl (UnexpectedFieldType expectedType)))"

text \<open>The \<^verbatim>\<open>while (currList)\<close> loop, with the array \<^verbatim>\<open>errors\<close> it pushes to.\<close>

fun checkRhsGroup_loop ::
  "externals \<Rightarrow> ValueList option \<Rightarrow> FieldType option \<Rightarrow> decoration list \<Rightarrow>
   error + decoration list" where
  "checkRhsGroup_loop x None expectedType errors = Inr errors"
| "checkRhsGroup_loop x (Some (ValueList v restOfList)) expectedType errors =
     (if instanceof_Field (val v) then
        checkRhsGroup_loop x restOfList expectedType
          (errors @ [toDecoration (val v) ''Values in list must be literals''])
      else
        (case checkRhsValue x v expectedType of
           Inl e \<Rightarrow> Inl e
         | Inr ds \<Rightarrow> checkRhsGroup_loop x restOfList expectedType (errors @ ds)))"

definition checkRhsGroup ::
  "externals \<Rightarrow> ValueList \<Rightarrow> FieldType option \<Rightarrow> error + decoration list" where
  "checkRhsGroup x vl expectedType = checkRhsGroup_loop x (Some vl) expectedType []"

definition checkRhsField ::
  "externals \<Rightarrow> IFieldLookup \<Rightarrow> Field \<Rightarrow> FieldType option \<Rightarrow> error + decoration list" where
  "checkRhsField x fieldLookup targetField expectedType =
     (if key_in_lookup fieldLookup (toLocaleLowerCase x (tokenText (ident targetField))) then
        (case read_fieldType
                (lookup_read fieldLookup (toLocaleLowerCase x (tokenText (ident targetField)))) of
           Inl e \<Rightarrow> Inl e
         | Inr ty \<Rightarrow>
             Inr (if ty \<noteq> expectedType
                  then [toDecoration (Tok (ident targetField))
                          (''Expected field of type '' @ FieldType_name x expectedType)]
                  else []))
      else Inr [])"

definition getRhsType :: "Value \<Rightarrow> rhsType" where
  "getRhsType v = (if instanceof_Field (val v) then Rhs_field else Rhs_literal)"

text \<open>
  One turn of the loop of \<^verbatim>\<open>check\<close>: the decorations it pushes to \<^verbatim>\<open>errors\<close>
  (\<^verbatim>\<open>continue\<close> ends the turn), or the error it raises. \<open>ty\<close> is the constant
  \<^verbatim>\<open>type\<close>, \<^verbatim>\<open>undefined\<close> when the field's key is an inherited one.
\<close>

definition check_condition ::
  "externals \<Rightarrow> IFieldLookup \<Rightarrow> condition \<Rightarrow> error + decoration list" where
  "check_condition x fieldLookup c =
     (case cond_field c of
        None \<Rightarrow> Inr []
      | Some fld \<Rightarrow>
         if \<not> key_in_lookup fieldLookup (toLocaleLowerCase x (tokenText (ident fld)))
         then Inr []
         else
         (case read_fieldType
                 (lookup_read fieldLookup (toLocaleLowerCase x (tokenText (ident fld)))) of
            Inl e \<Rightarrow> Inl e
          | Inr ty \<Rightarrow>
             (case (conditionalOperator c, cond_value c) of
                (Some compOp, Some v) \<Rightarrow>
                  (let rhs = getRhsType v in
                   case checkComparisonOperator x fieldLookup compOp fld rhs of
                     Inl e \<Rightarrow> Inl e
                   | Inr compErrors \<Rightarrow>
                       if length compErrors > 0 then Inr compErrors
                       else (case val v of
                               Fld targetField \<Rightarrow> checkRhsField x fieldLookup targetField ty
                             | Tok t \<Rightarrow> checkRhsValue x v ty))
              | _ \<Rightarrow>
                  (case (valueList c, inOperator c) of
                     (Some vl, Some inOp) \<Rightarrow>
                       (case checkRhsGroup x vl ty of
                          Inl e \<Rightarrow> Inl e
                        | Inr groupErrors \<Rightarrow>
                            (case checkAllowsGroup x fieldLookup inOp fld of
                               Inl e \<Rightarrow> Inl e
                             | Inr allowErrors \<Rightarrow> Inr (groupErrors @ allowErrors)))
                   | _ \<Rightarrow> Inr []))))"

fun check_loop ::
  "externals \<Rightarrow> IFieldLookup \<Rightarrow> condition list \<Rightarrow> decoration list \<Rightarrow> error + decoration list" where
  "check_loop x fieldLookup [] errors = Inr errors"
| "check_loop x fieldLookup (c # allConditions) errors =
     (case check_condition x fieldLookup c of
        Inl e \<Rightarrow> Inl e
      | Inr ds \<Rightarrow> check_loop x fieldLookup allConditions (errors @ ds))"

text \<open>
  \<^verbatim>\<open>check\<close>, given the lookup the cache resolves to and the two results of
  \<^verbatim>\<open>symbolsOfType\<close> on the parse result; the value is what the promise resolves to, or the
  error it is rejected with.
\<close>

definition check ::
  "externals \<Rightarrow> IFieldLookup \<Rightarrow> condition list \<Rightarrow> condition list \<Rightarrow> error + decoration list" where
  "check x fieldLookup conditionalExpressions linkConditions =
     check_loop x fieldLookup (conditionalExpressions @ linkConditions) []"

section \<open>Variable completion\<close>

datatype CompletionItemKind = CompletionItemKind_Variable | CompletionItemKind_Other nat

record CompletionItem =
  label :: string
  kind :: CompletionItemKind
  insertText :: "string option"

text \<open>
  Of \<^verbatim>\<open>ICompletionContext\<close>, an imported interface, the parts the sources read:
  \<^verbatim>\<open>parseNext.expectedTokens\<close>, \<^verbatim>\<open>prevToken\<close>, \<^verbatim>\<open>isInCondition\<close> and
  \<^verbatim>\<open>fieldType\<close>. The previous token and the field type can be \<^verbatim>\<open>null\<close> (\<open>None\<close>), as
  in the spec's external interfaces.
\<close>

record ICompletionContext =
  expectedTokens :: "string list"
  prevToken :: "token option"
  isInCondition :: bool
  ctx_fieldType :: "FieldType option"

record Position =
  column :: int

text \<open>The \<^verbatim>\<open>for ... in\<close> loop over the keys of \<^verbatim>\<open>definedVariables\<close>. \<open>None\<close> is \<^verbatim>\<open>null\<close>.\<close>

fun getStandardVariableSuggestions_loop ::
  "externals \<Rightarrow> FieldType option \<Rightarrow> string list \<Rightarrow> CompletionItem list \<Rightarrow> CompletionItem list" where
  "getStandardVariableSuggestions_loop x ty [] suggestions = suggestions"
| "getStandardVariableSuggestions_loop x ty (variable # keys) suggestions =
     (if ty = None \<or> map_of (definedVariables x) variable = ty then
        getStandardVariableSuggestions_loop x ty keys
          (suggestions @
            [\<lparr>label = variable, kind = CompletionItemKind_Variable, insertText = None\<rparr>])
      else getStandardVariableSuggestions_loop x ty keys suggestions)"

definition getStandardVariableSuggestions :: "externals \<Rightarrow> FieldType option \<Rightarrow> CompletionItem list" where
  "getStandardVariableSuggestions x ty =
     getStandardVariableSuggestions_loop x ty (map fst (definedVariables x)) []"

definition prevToken_instanceof :: "ICompletionContext \<Rightarrow> symclass \<Rightarrow> bool" where
  "prevToken_instanceof ctx c = (case prevToken ctx of None \<Rightarrow> False | Some t \<Rightarrow> cls t = c)"

text \<open>\<^verbatim>\<open>includeVariables\<close> pushes to its argument; here it returns the sequence.\<close>

definition includeVariables ::
  "externals \<Rightarrow> ICompletionContext \<Rightarrow> CompletionItem list \<Rightarrow> CompletionItem list" where
  "includeVariables x ctx suggestions =
     (if getSymbolName x Symbols_Variable \<in> set (expectedTokens ctx)
         \<and> \<not> prevToken_instanceof ctx Symbols_Group
      then suggestions @
             getStandardVariableSuggestions x (if isInCondition ctx then ctx_fieldType ctx else None)
      else suggestions)"

text \<open>\<^verbatim>\<open>label.replace("@", "")\<close>: the first \<open>@\<close> of the string is dropped.\<close>

fun replace_at :: "string \<Rightarrow> string" where
  "replace_at [] = []"
| "replace_at (c # cs) = (if c = CHR ''@'' then cs else c # replace_at cs)"

definition getCurrentVariableSuggestions ::
  "externals \<Rightarrow> ICompletionContext \<Rightarrow> Position \<Rightarrow> CompletionItem list option" where
  "getCurrentVariableSuggestions x ctx position =
     (case prevToken ctx of
        None \<Rightarrow> None
      | Some t \<Rightarrow>
          if cls t = Symbols_Variable \<and> column position - 1 = endColumn t then
            Some (map (\<lambda>s. \<lparr>label = label s, kind = CompletionItemKind_Variable,
                            insertText = Some (replace_at (label s))\<rparr>)
                   (getStandardVariableSuggestions x
                      (if isInCondition ctx then ctx_fieldType ctx else None)))
          else None)"

section \<open>A sample of the externals\<close>

text \<open>
  Modelled from the spec: \<^verbatim>\<open>toLocaleLowerCase\<close>, \<^verbatim>\<open>Symbols.getSymbolName\<close> and
  \<^verbatim>\<open>definedVariables\<close> are imported by the sources and not among them. The sample has
  lower-casing of the ASCII letters, the upper-case class names of the message
  \<^verbatim>\<open>Expected value of type NUMBER\<close>, and the variable table
  \<^verbatim>\<open>{"@me": String, "@today": DateTime}\<close> of the spec's testable properties. The general
  theorems below hold for every choice of the externals; the sample serves the worked
  examples.
\<close>

fun lowerChar :: "char \<Rightarrow> char" where
  "lowerChar (Char b0 b1 b2 b3 b4 b5 b6 b7) =
     (let n = (of_char (Char b0 b1 b2 b3 b4 b5 b6 b7) :: nat)
      in if 65 \<le> n \<and> n \<le> 90 then Char b0 b1 b2 b3 b4 True b6 b7
         else Char b0 b1 b2 b3 b4 b5 b6 b7)"

fun sampleSymbolName :: "symclass \<Rightarrow> string" where
  "sampleSymbolName Symbols_Equals = ''EQUALS''"
| "sampleSymbolName Symbols_NotEquals = ''NOTEQUALS''"
| "sampleSymbolName Symbols_GreaterThan = ''GREATERTHAN''"
| "sampleSymbolName Symbols_LessThan = ''LESSTHAN''"
| "sampleSymbolName Symbols_GreaterOrEq = ''GREATEROREQ''"
| "sampleSymbolName Symbols_LessOrEq = ''LESSOREQ''"
| "sampleSymbolName Symbols_InGroup = ''INGROUP''"
| "sampleSymbolName Symbols_Ever = ''EVER''"
| "sampleSymbolName Symbols_Contains = ''CONTAINS''"
| "sampleSymbolName Symbols_ContainsWords = ''CONTAINSWORDS''"
| "sampleSymbolName Symbols_Under = ''UNDER''"
| "sampleSymbolName Symbols_In = ''IN''"
| "sampleSymbolName Symbols_Number = ''NUMBER''"
| "sampleSymbolName Symbols_String = ''STRING''"
| "sampleSymbolName Symbols_Variable = ''VARIABLE''"
| "sampleSymbolName Symbols_True = ''TRUE''"
| "sampleSymbolName Symbols_False = ''FALSE''"
| "sampleSymbolName Symbols_Group = ''GROUP''"
| "sampleSymbolName (Symbols_Other n) = ''SYMBOL''"

definition sampleExternals :: externals where
  "sampleExternals =
     \<lparr>toLocaleLowerCase = map lowerChar,
      getSymbolName = sampleSymbolName,
      definedVariables = [(''@me'', FieldType_String), (''@today'', FieldType_DateTime)],
      otherFieldTypeName = (\<lambda>n. ''undefined'')\<rparr>"

definition sampleFields :: "WorkItemField list" where
  "sampleFields =
     [\<lparr>name = ''Title'', referenceName = ''System.Title'', type = FieldType_String\<rparr>,
      \<lparr>name = ''Effort'', referenceName = ''Custom.Effort'', type = FieldType_Double\<rparr>,
      \<lparr>name = ''Size'', referenceName = ''Custom.Size'', type = FieldType_Integer\<rparr>,
      \<lparr>name = ''Active'', referenceName = ''Custom.Active'', type = FieldType_Boolean\<rparr>,
      \<lparr>name = ''Link Type'', referenceName = ''System.Links.LinkType'',
        type = FieldType_String\<rparr>]"

definition sampleLookup :: IFieldLookup where
  "sampleLookup = getFieldComparisonLookup sampleExternals sampleFields"

text \<open>Sample syntax: a token of a class, a field reference, a scalar condition, a group condition.\<close>

definition tokenOf :: "symclass \<Rightarrow> string \<Rightarrow> int \<Rightarrow> token" where
  "tokenOf c s e = \<lparr>cls = c, tokenText = s, endColumn = e\<rparr>"

definition fieldRef :: "string \<Rightarrow> int \<Rightarrow> Field" where
  "fieldRef s e = \<lparr>ident = tokenOf (Symbols_Other 0) s e\<rparr>"

definition scalarCondition :: "Field \<Rightarrow> token \<Rightarrow> symbol \<Rightarrow> condition" where
  "scalarCondition fld opTok rhs =
     \<lparr>cond_field = Some fld, conditionalOperator = Some \<lparr>conditionToken = opTok\<rparr>,
      cond_value = Some \<lparr>val = rhs\<rparr>, valueList = None, inOperator = None\<rparr>"

definition groupCondition :: "Field \<Rightarrow> token \<Rightarrow> ValueList \<Rightarrow> condition" where
  "groupCondition fld inTok vl =
     \<lparr>cond_field = Some fld, conditionalOperator = None, cond_value = None,
      valueList = Some vl, inOperator = Some inTok\<rparr>"

text \<open>
  Sample conditions: \<^verbatim>\<open>[Severity] = 'x'\<close> (a field the lookup lacks),
  \<^verbatim>\<open>[constructor] = 'x'\<close> (not a field either, and a property every object inherits),
  \<^verbatim>\<open>[Effort] = 'abc'\<close>, \<^verbatim>\<open>[Effort] Contains [Size]\<close>, \<^verbatim>\<open>[Title] Under 5\<close> and
  \<^verbatim>\<open>[Active] In ([Size], 'x')\<close>.
\<close>

definition cond_unknown_field :: condition where
  "cond_unknown_field =
     scalarCondition (fieldRef ''Severity'' 10) (tokenOf Symbols_Equals ''='' 12)
       (Tok (tokenOf Symbols_String ''x'' 16))"

definition cond_inherited_field :: condition where
  "cond_inherited_field =
     scalarCondition (fieldRef ''constructor'' 13) (tokenOf Symbols_Equals ''='' 15)
       (Tok (tokenOf Symbols_String ''x'' 19))"

definition cond_effort_string :: condition where
  "cond_effort_string =
     scalarCondition (fieldRef ''Effort'' 8) (tokenOf Symbols_Equals ''='' 10)
       (Tok (tokenOf Symbols_String ''abc'' 16))"

definition cond_effort_contains_field :: condition where
  "cond_effort_contains_field =
     scalarCondition (fieldRef ''Effort'' 8) (tokenOf Symbols_Contains ''Contains'' 17)
       (Fld (fieldRef ''Size'' 24))"

definition cond_title_under_number :: condition where
  "cond_title_under_number =
     scalarCondition (fieldRef ''Title'' 7) (tokenOf Symbols_Under ''Under'' 13)
       (Tok (tokenOf Symbols_Number ''5'' 15))"

definition cond_active_in_list :: condition where
  "cond_active_in_list =
     groupCondition (fieldRef ''Active'' 8) (tokenOf Symbols_In ''In'' 11)
       (ValueList \<lparr>val = Fld (fieldRef ''Size'' 19)\<rparr>
          (Some (ValueList \<lparr>val = Tok (tokenOf Symbols_String ''x'' 24)\<rparr> None)))"

text \<open>The symbol a decoration marks, and the symbols of the values of a list, in order.\<close>

fun marked :: "decoration \<Rightarrow> symbol" where
  "marked (toDecoration s message) = s"

fun listSymbols :: "ValueList option \<Rightarrow> symbol list" where
  "listSymbols None = []"
| "listSymbols (Some (ValueList v restOfList)) = val v # listSymbols restOfList"

section \<open>Facts about the samples and the loop of check\<close>

lemmas sample_simps = sampleLookup_def sampleFields_def getFieldComparisonLookup_def
  sampleExternals_def compTypes_def linkTypeComparison_def tokenOf_def fieldRef_def
  scalarCondition_def groupCondition_def lookup_assign_def lookup_read_def key_in_lookup_def
  Object_prototype_keys_def IComparisonType_keys_def

text \<open>An own key is in the lookup, and reading it gives what it holds.\<close>

lemma key_in_lookup_own:
  "fieldLookup key = Some v \<Longrightarrow> key_in_lookup fieldLookup key"
  by (simp add: key_in_lookup_def)

lemma lookup_read_entry:
  "fieldLookup key = Some (Some entry) \<Longrightarrow> lookup_read fieldLookup key = Entry entry"
  by (simp add: lookup_read_def)

lemma lookup_assign_other:
  "key' \<noteq> key \<Longrightarrow> lookup_assign fieldLookup key v key' = fieldLookup key'"
  by (simp add: lookup_assign_def)

lemma compTypes_numeric:
  assumes "ty \<in> {FieldType_Integer, FieldType_Double, FieldType_DateTime, FieldType_Guid}"
  shows "compTypes ty = Some \<lparr>fieldType = ty,
      literal = [Symbols_Equals, Symbols_NotEquals, Symbols_GreaterThan, Symbols_LessThan,
       Symbols_GreaterOrEq, Symbols_LessOrEq, Symbols_Ever],
      field = [Symbols_Equals, Symbols_NotEquals, Symbols_GreaterThan, Symbols_LessThan,
       Symbols_GreaterOrEq, Symbols_LessOrEq],
      group = [Symbols_In]\<rparr>"
  using assms by (auto simp: compTypes_def)

text \<open>The array \<^verbatim>\<open>errors\<close> only grows: a turn of the loop appends to it.\<close>

lemma check_loop_errors:
  "check_loop x fl cs errors =
     (case check_loop x fl cs [] of Inl e \<Rightarrow> Inl e | Inr ds \<Rightarrow> Inr (errors @ ds))"
proof (induction cs arbitrary: errors)
  case Nil
  show ?case by simp
next
  case (Cons c cs)
  show ?case
  proof (cases "check_condition x fl c")
    case (Inl e)
    then show ?thesis by simp
  next
    case (Inr ds)
    then show ?thesis
      using Cons.IH [of "errors @ ds"] Cons.IH [of ds]
      by (simp split: sum.splits)
  qed
qed

lemma check_loop_append:
  "check_loop x fl (cs @ cs') errors =
     (case check_loop x fl cs errors of Inl e \<Rightarrow> Inl e | Inr ds \<Rightarrow> check_loop x fl cs' ds)"
  by (induction cs arbitrary: errors) (simp_all split: sum.splits)

text \<open>
  The result of \<^verbatim>\<open>check\<close> around one condition of the parse result: the decorations of
  the conditions before it, its own, and those of the conditions after it.
\<close>

lemma check_at:
  assumes "conditionalExpressions @ linkConditions = before @ c # after"
  shows "check x fl conditionalExpressions linkConditions =
     (case check_loop x fl before [] of
        Inl e \<Rightarrow> Inl e
      | Inr ds \<Rightarrow>
         (case check_condition x fl c of
            Inl e \<Rightarrow> Inl e
          | Inr ds' \<Rightarrow>
             (case check_loop x fl after [] of
                Inl e \<Rightarrow> Inl e
              | Inr ds'' \<Rightarrow> Inr (ds @ ds' @ ds''))))"
proof -
  have "check x fl conditionalExpressions linkConditions = check_loop x fl (before @ c # after) []"
    by (simp add: check_def assms)
  also have "\<dots> = (case check_loop x fl before [] of
        Inl e \<Rightarrow> Inl e | Inr ds \<Rightarrow> check_loop x fl (c # after) ds)"
    by (rule check_loop_append)
  finally have step: "check x fl conditionalExpressions linkConditions =
      (case check_loop x fl before [] of
        Inl e \<Rightarrow> Inl e | Inr ds \<Rightarrow> check_loop x fl (c # after) ds)" .
  show ?thesis
  proof (cases "check_loop x fl before []")
    case (Inl e)
    with step show ?thesis by simp
  next
    case (Inr ds)
    show ?thesis
    proof (cases "check_condition x fl c")
      case (Inl e)
      with step Inr show ?thesis by simp
    next
      case inner: (Inr ds')
      have "check_loop x fl after (ds @ ds') =
              (case check_loop x fl after [] of Inl e \<Rightarrow> Inl e
               | Inr ds'' \<Rightarrow> Inr ((ds @ ds') @ ds''))"
        by (rule check_loop_errors)
      with step Inr inner show ?thesis by (simp split: sum.splits)
    qed
  qed
qed

section \<open>Conditions on unknown fields\<close>

text \<open>
  A condition that has no field reference, or whose field's lower-cased text fails the test
  \<^verbatim>\<open>in fieldLookup\<close>, contributes no decoration, and \<^verbatim>\<open>check\<close> goes on with the other
  conditions.
\<close>

lemma check_skips_condition:
  assumes "conditionalExpressions @ linkConditions = before @ c # after"
    and "cond_field c = None \<or>
         (\<exists>fld. cond_field c = Some fld
            \<and> \<not> key_in_lookup fieldLookup (toLocaleLowerCase x (tokenText (ident fld))))"
  shows "check_condition x fieldLookup c = Inr []
       \<and> check x fieldLookup conditionalExpressions linkConditions
           = check x fieldLookup (before @ after) []"
proof -
  have skip: "check_condition x fieldLookup c = Inr []"
    using assms(2) by (auto simp: check_condition_def)
  have "check x fieldLookup conditionalExpressions linkConditions =
          check_loop x fieldLookup (before @ c # after) []"
    by (simp add: check_def assms(1))
  also have "\<dots> = check_loop x fieldLookup (before @ after) []"
    by (simp add: check_loop_append skip cong: sum.case_cong)
  finally show ?thesis using skip by (simp add: check_def)
qed

text \<open>
  C9. The claim: a condition whose field's lower-cased text is absent from the field lookup
  gets no decoration, and the other conditions are still checked. The code tests absence
  with \<^verbatim>\<open>in\<close>, which finds inherited properties too, so the claim fails for a field
  that is no key of the lookup and is named like one of them. With the lookup built from
  the sample fields, neither \<^verbatim>\<open>severity\<close> nor \<^verbatim>\<open>constructor\<close> is a key. The condition
  \<^verbatim>\<open>[Severity] = 'x'\<close> is skipped and the condition after it is checked;
  \<^verbatim>\<open>[constructor] = 'x'\<close> is not skipped: \<^verbatim>\<open>validOps.length\<close> raises a TypeError, and
  \<^verbatim>\<open>check\<close> returns no decoration at all, not even that of the condition after it.
\<close>

theorem inherited_key_not_skipped:
  "sampleLookup (toLocaleLowerCase sampleExternals ''Severity'') = None
   \<and> sampleLookup (toLocaleLowerCase sampleExternals ''constructor'') = None
   \<and> check sampleExternals sampleLookup [cond_unknown_field] [cond_effort_string]
       = Inr [toDecoration (Tok (tokenOf Symbols_String ''abc'' 16))
                ''Expected value of type NUMBER'']
   \<and> check_condition sampleExternals sampleLookup cond_inherited_field = Inl TypeError
   \<and> check sampleExternals sampleLookup [cond_inherited_field] [cond_effort_string]
       = Inl TypeError"
  by (simp add: check_def check_condition_def checkComparisonOperator_def checkRhsValue_def
        getRhsType_def cond_unknown_field_def cond_inherited_field_def cond_effort_string_def
        sample_simps)


section \<open>Scalar conditions\<close>

text \<open>
  C4. For a scalar condition (operator and single value) on a field of the lookup, if the
  operator check returns decorations, they are all that the condition contributes: one
  decoration, on the operator token, and nothing about the right-hand side. The conditions
  before and after it are checked as usual.
\<close>

theorem operator_error_short_circuits:
  assumes "conditionalExpressions @ linkConditions = before @ c # after"
    and "cond_field c = Some fld"
    and "fieldLookup (toLocaleLowerCase x (tokenText (ident fld))) = Some (Some entry)"
    and "conditionalOperator c = Some compOp"
    and "cond_value c = Some v"
    and "checkComparisonOperator x fieldLookup compOp fld (getRhsType v) = Inr compErrors"
    and "compErrors \<noteq> []"
  shows "check_condition x fieldLookup c = Inr compErrors
       \<and> (\<exists>message. compErrors = [toDecoration (Tok (conditionToken compOp)) message])
       \<and> check x fieldLookup conditionalExpressions linkConditions =
           (case check_loop x fieldLookup before [] of
              Inl e \<Rightarrow> Inl e
            | Inr ds \<Rightarrow>
               (case check_loop x fieldLookup after [] of
                  Inl e \<Rightarrow> Inl e
                | Inr ds' \<Rightarrow> Inr (ds @ compErrors @ ds')))"
proof -
  have one: "check_condition x fieldLookup c = Inr compErrors"
    using assms(2-7) key_in_lookup_own [where fieldLookup = fieldLookup, OF assms(3)] lookup_read_entry [where fieldLookup = fieldLookup, OF assms(3)]
    by (simp add: check_condition_def)
  have shape: "\<exists>message. compErrors = [toDecoration (Tok (conditionToken compOp)) message]"
    using assms(6,7) lookup_read_entry [where fieldLookup = fieldLookup, OF assms(3)]
    by (auto simp: checkComparisonOperator_def Let_def split: if_splits)
  show ?thesis
    using one shape check_at [OF assms(1), of x fieldLookup]
    by (simp cong: sum.case_cong)
qed

theorem operator_error_short_circuits_witness:
  "[cond_title_under_number] @ [cond_effort_string]
      = [] @ cond_title_under_number # [cond_effort_string]
   \<and> checkComparisonOperator sampleExternals sampleLookup
         \<lparr>conditionToken = tokenOf Symbols_Under ''Under'' 13\<rparr> (fieldRef ''Title'' 7) Rhs_literal
       = Inr [toDecoration (Tok (tokenOf Symbols_Under ''Under'' 13))
               ''Valid comparisons are EQUALS, NOTEQUALS, GREATERTHAN, LESSTHAN, GREATEROREQ, LESSOREQ, EVER, CONTAINS, INGROUP'']
   \<and> check sampleExternals sampleLookup [cond_title_under_number] [cond_effort_string] =
       Inr [toDecoration (Tok (tokenOf Symbols_Under ''Under'' 13))
              ''Valid comparisons are EQUALS, NOTEQUALS, GREATERTHAN, LESSTHAN, GREATEROREQ, LESSOREQ, EVER, CONTAINS, INGROUP'',
            toDecoration (Tok (tokenOf Symbols_String ''abc'' 16)) ''Expected value of type NUMBER'']"
proof -
  let ?entry = "\<lparr>fieldType = FieldType_String,
         literal = [Symbols_Equals, Symbols_NotEquals, Symbols_GreaterThan, Symbols_LessThan,
           Symbols_GreaterOrEq, Symbols_LessOrEq, Symbols_Ever, Symbols_Contains, Symbols_InGroup],
         field = [Symbols_Equals, Symbols_NotEquals, Symbols_GreaterThan, Symbols_LessThan,
           Symbols_GreaterOrEq, Symbols_LessOrEq],
         group = [Symbols_In]\<rparr>"
  let ?errs = "[toDecoration (Tok (tokenOf Symbols_Under ''Under'' 13))
               ''Valid comparisons are EQUALS, NOTEQUALS, GREATERTHAN, LESSTHAN, GREATEROREQ, LESSOREQ, EVER, CONTAINS, INGROUP'']"
  have h1: "[cond_title_under_number] @ [cond_effort_string]
      = [] @ cond_title_under_number # [cond_effort_string]"
    by simp
  have h2: "cond_field cond_title_under_number = Some (fieldRef ''Title'' 7)"
    by (simp add: cond_title_under_number_def scalarCondition_def)
  have h3: "sampleLookup (toLocaleLowerCase sampleExternals (tokenText (ident (fieldRef ''Title'' 7))))
      = Some (Some ?entry)"
    by (simp add: sampleLookup_def sampleFields_def getFieldComparisonLookup_def
          lookup_assign_def
          sampleExternals_def fieldRef_def tokenOf_def compTypes_def)
  have h4: "conditionalOperator cond_title_under_number =
      Some \<lparr>conditionToken = tokenOf Symbols_Under ''Under'' 13\<rparr>"
    by (simp add: cond_title_under_number_def scalarCondition_def)
  have h5: "cond_value cond_title_under_number = Some \<lparr>val = Tok (tokenOf Symbols_Number ''5'' 15)\<rparr>"
    by (simp add: cond_title_under_number_def scalarCondition_def)
  have h6: "checkComparisonOperator sampleExternals sampleLookup
         \<lparr>conditionToken = tokenOf Symbols_Under ''Under'' 13\<rparr> (fieldRef ''Title'' 7)
         (getRhsType \<lparr>val = Tok (tokenOf Symbols_Number ''5'' 15)\<rparr>) = Inr ?errs"
    using lookup_read_entry [where fieldLookup = sampleLookup, OF h3]
    by (simp add: checkComparisonOperator_def getRhsType_def tokenOf_def sampleExternals_def)
  have h7: "?errs \<noteq> []"
    by simp
  have rest: "check_loop sampleExternals sampleLookup [cond_effort_string] [] =
       Inr [toDecoration (Tok (tokenOf Symbols_String ''abc'' 16)) ''Expected value of type NUMBER'']"
    by (simp add: check_condition_def checkComparisonOperator_def checkRhsValue_def
          getRhsType_def cond_effort_string_def sample_simps)
  show ?thesis
    using h6 rest operator_error_short_circuits
        [where fieldLookup = sampleLookup and x = sampleExternals, OF h1 h2 h3 h4 h5 h6 h7]
    by (simp add: getRhsType_def tokenOf_def)
qed

text \<open>
  C1 (as amended). For a field whose entry is that of the table for Integer, Double,
  DateTime or Guid, a scalar condition whose right-hand side is a field reference and whose
  operator is Contains gets exactly one decoration, on the operator:
  \<^verbatim>\<open>Valid comparisons are\<close> followed by the names of the six field operators. The set of
  field operators of these types is not empty, so the message
  \<^verbatim>\<open>There is no valid operation\<close> is not the one produced.
\<close>

theorem numeric_field_contains_field:
  assumes "ty \<in> {FieldType_Integer, FieldType_Double, FieldType_DateTime, FieldType_Guid}"
    and "cond_field c = Some fld"
    and "fieldLookup (toLocaleLowerCase x (tokenText (ident fld))) = Some (compTypes ty)"
    and "conditionalOperator c = Some compOp"
    and "cls (conditionToken compOp) = Symbols_Contains"
    and "cond_value c = Some v"
    and "val v = Fld targetField"
  shows "check_condition x fieldLookup c =
           Inr [toDecoration (Tok (conditionToken compOp))
                 (''Valid comparisons are '' @ join '', '' (map (getSymbolName x)
                    [Symbols_Equals, Symbols_NotEquals, Symbols_GreaterThan, Symbols_LessThan,
                     Symbols_GreaterOrEq, Symbols_LessOrEq]))]"
proof -
  have rhs: "getRhsType v = Rhs_field"
    using assms(7) by (simp add: getRhsType_def)
  obtain entry where entry: "compTypes ty = Some entry"
      "fieldLookup (toLocaleLowerCase x (tokenText (ident fld))) = Some (Some entry)"
      "field entry = [Symbols_Equals, Symbols_NotEquals, Symbols_GreaterThan, Symbols_LessThan,
                     Symbols_GreaterOrEq, Symbols_LessOrEq]"
    using assms(3) compTypes_numeric [OF assms(1)] by simp
  have "checkComparisonOperator x fieldLookup compOp fld Rhs_field =
          Inr [toDecoration (Tok (conditionToken compOp))
                 (''Valid comparisons are '' @ join '', '' (map (getSymbolName x)
                    [Symbols_Equals, Symbols_NotEquals, Symbols_GreaterThan, Symbols_LessThan,
                     Symbols_GreaterOrEq, Symbols_LessOrEq]))]"
    using assms(5) entry(3) lookup_read_entry [where fieldLookup = fieldLookup, OF entry(2)]
    by (simp add: checkComparisonOperator_def)
  then show ?thesis
    using assms(2,4,6) rhs key_in_lookup_own [where fieldLookup = fieldLookup, OF entry(2)] lookup_read_entry [where fieldLookup = fieldLookup, OF entry(2)]
    by (simp add: check_condition_def)
qed

theorem numeric_field_contains_field_witness:
  "FieldType_Double \<in> {FieldType_Integer, FieldType_Double, FieldType_DateTime, FieldType_Guid}
   \<and> sampleLookup (toLocaleLowerCase sampleExternals ''Effort'') = Some (compTypes FieldType_Double)
   \<and> check_condition sampleExternals sampleLookup cond_effort_contains_field =
       Inr [toDecoration (Tok (tokenOf Symbols_Contains ''Contains'' 17))
             ''Valid comparisons are EQUALS, NOTEQUALS, GREATERTHAN, LESSTHAN, GREATEROREQ, LESSOREQ'']"
proof -
  have h1: "FieldType_Double \<in>
      {FieldType_Integer, FieldType_Double, FieldType_DateTime, FieldType_Guid}"
    by simp
  have h2: "cond_field cond_effort_contains_field = Some (fieldRef ''Effort'' 8)"
    by (simp add: cond_effort_contains_field_def scalarCondition_def)
  have h3: "sampleLookup (toLocaleLowerCase sampleExternals (tokenText (ident (fieldRef ''Effort'' 8))))
      = Some (compTypes FieldType_Double)"
    by (simp add: sampleLookup_def sampleFields_def getFieldComparisonLookup_def
          lookup_assign_def
          sampleExternals_def fieldRef_def tokenOf_def)
  have h4: "conditionalOperator cond_effort_contains_field =
      Some \<lparr>conditionToken = tokenOf Symbols_Contains ''Contains'' 17\<rparr>"
    by (simp add: cond_effort_contains_field_def scalarCondition_def)
  have h5: "cls (conditionToken \<lparr>conditionToken = tokenOf Symbols_Contains ''Contains'' 17\<rparr>)
      = Symbols_Contains"
    by (simp add: tokenOf_def)
  have h6: "cond_value cond_effort_contains_field = Some \<lparr>val = Fld (fieldRef ''Size'' 24)\<rparr>"
    by (simp add: cond_effort_contains_field_def scalarCondition_def)
  have h7: "val \<lparr>val = Fld (fieldRef ''Size'' 24)\<rparr> = Fld (fieldRef ''Size'' 24)"
    by simp
  show ?thesis
    using h3 numeric_field_contains_field
        [where fieldLookup = sampleLookup and x = sampleExternals, OF h1 h2 h3 h4 h5 h6 h7]
    by (simp add: sampleExternals_def fieldRef_def tokenOf_def)
qed

text \<open>
  The claim as first stated fails on \<^verbatim>\<open>[Effort] Contains [Size]\<close>, with Effort of type
  Double.
\<close>

theorem numeric_field_contains_field_counterexample:
  "check sampleExternals sampleLookup [cond_effort_contains_field] [] =
     Inr [toDecoration (Tok (tokenOf Symbols_Contains ''Contains'' 17))
           ''Valid comparisons are EQUALS, NOTEQUALS, GREATERTHAN, LESSTHAN, GREATEROREQ, LESSOREQ'']
   \<and> check sampleExternals sampleLookup [cond_effort_contains_field] [] \<noteq>
     Inr [toDecoration (Tok (tokenOf Symbols_Contains ''Contains'' 17))
           ''There is no valid operation for Effort and field'']"
  by (simp add: check_def check_condition_def checkComparisonOperator_def getRhsType_def
        cond_effort_contains_field_def sample_simps)

text \<open>
  C3. For a scalar condition whose operator check passed and whose right-hand side is a
  literal (a token that is not a variable), on a field of one of the ten handled types:
  Integer and Double require a number token, else \<^verbatim>\<open>Expected value of type\<close> with the
  name of the number class; Boolean requires a true or false token, else the fixed message
  \<^verbatim>\<open>Expected value of type BOOLEAN\<close>; every other type requires a string token, else
  \<^verbatim>\<open>Expected value of type\<close> with the name of the string class.
\<close>

theorem literal_value_type_rule:
  assumes "cond_field c = Some fld"
    and "fieldLookup (toLocaleLowerCase x (tokenText (ident fld))) = Some (Some entry)"
    and "conditionalOperator c = Some compOp"
    and "cond_value c = Some v"
    and "val v = Tok t"
    and "cls t \<noteq> Symbols_Variable"
    and "checkComparisonOperator x fieldLookup compOp fld Rhs_literal = Inr []"
    and "fieldType entry \<in> {FieldType_String, FieldType_Integer, FieldType_DateTime,
           FieldType_PlainText, FieldType_Html, FieldType_TreePath, FieldType_History,
           FieldType_Double, FieldType_Guid, FieldType_Boolean}"
  shows "check_condition x fieldLookup c =
     Inr (if fieldType entry = FieldType_Integer \<or> fieldType entry = FieldType_Double then
            (if cls t = Symbols_Number then []
             else [toDecoration (Tok t)
                     (''Expected value of type '' @ getSymbolName x Symbols_Number)])
          else if fieldType entry = FieldType_Boolean then
            (if cls t = Symbols_True \<or> cls t = Symbols_False then []
             else [toDecoration (Tok t) ''Expected value of type BOOLEAN''])
          else
            (if cls t = Symbols_String then []
             else [toDecoration (Tok t)
                     (''Expected value of type '' @ getSymbolName x Symbols_String)]))"
proof -
  have rhs: "getRhsType v = Rhs_literal"
    using assms(5) by (simp add: getRhsType_def)
  have body: "check_condition x fieldLookup c = checkRhsValue x v (Some (fieldType entry))"
    using assms(1,3-5,7) rhs key_in_lookup_own [where fieldLookup = fieldLookup, OF assms(2)] lookup_read_entry [where fieldLookup = fieldLookup, OF assms(2)]
    by (simp add: check_condition_def)
  have var: "asVariable (val v) = None"
    using assms(5,6) by simp
  show ?thesis
    unfolding body using assms(5,8) var
    by (cases "fieldType entry") (simp_all add: checkRhsValue_def)
qed

theorem literal_value_type_rule_witness:
  "sampleLookup (toLocaleLowerCase sampleExternals ''Effort'')
     = Some (Some \<lparr>fieldType = FieldType_Double,
         literal = [Symbols_Equals, Symbols_NotEquals, Symbols_GreaterThan, Symbols_LessThan,
           Symbols_GreaterOrEq, Symbols_LessOrEq, Symbols_Ever],
         field = [Symbols_Equals, Symbols_NotEquals, Symbols_GreaterThan, Symbols_LessThan,
           Symbols_GreaterOrEq, Symbols_LessOrEq],
         group = [Symbols_In]\<rparr>)
   \<and> checkComparisonOperator sampleExternals sampleLookup
         \<lparr>conditionToken = tokenOf Symbols_Equals ''='' 10\<rparr> (fieldRef ''Effort'' 8) Rhs_literal
       = Inr []
   \<and> check_condition sampleExternals sampleLookup cond_effort_string =
       Inr [toDecoration (Tok (tokenOf Symbols_String ''abc'' 16)) ''Expected value of type NUMBER'']"
proof -
  let ?entry = "\<lparr>fieldType = FieldType_Double,
         literal = [Symbols_Equals, Symbols_NotEquals, Symbols_GreaterThan, Symbols_LessThan,
           Symbols_GreaterOrEq, Symbols_LessOrEq, Symbols_Ever],
         field = [Symbols_Equals, Symbols_NotEquals, Symbols_GreaterThan, Symbols_LessThan,
           Symbols_GreaterOrEq, Symbols_LessOrEq],
         group = [Symbols_In]\<rparr>"
  have h1: "cond_field cond_effort_string = Some (fieldRef ''Effort'' 8)"
    by (simp add: cond_effort_string_def scalarCondition_def)
  have h2: "sampleLookup (toLocaleLowerCase sampleExternals (tokenText (ident (fieldRef ''Effort'' 8))))
      = Some (Some ?entry)"
    by (simp add: sampleLookup_def sampleFields_def getFieldComparisonLookup_def
          lookup_assign_def
          sampleExternals_def fieldRef_def tokenOf_def compTypes_def)
  have h3: "conditionalOperator cond_effort_string =
      Some \<lparr>conditionToken = tokenOf Symbols_Equals ''='' 10\<rparr>"
    by (simp add: cond_effort_string_def scalarCondition_def)
  have h4: "cond_value cond_effort_string = Some \<lparr>val = Tok (tokenOf Symbols_String ''abc'' 16)\<rparr>"
    by (simp add: cond_effort_string_def scalarCondition_def)
  have h5: "val \<lparr>val = Tok (tokenOf Symbols_String ''abc'' 16)\<rparr> = Tok (tokenOf Symbols_String ''abc'' 16)"
    by simp
  have h6: "cls (tokenOf Symbols_String ''abc'' 16) \<noteq> Symbols_Variable"
    by (simp add: tokenOf_def)
  have h7: "checkComparisonOperator sampleExternals sampleLookup
         \<lparr>conditionToken = tokenOf Symbols_Equals ''='' 10\<rparr> (fieldRef ''Effort'' 8) Rhs_literal
       = Inr []"
    using lookup_read_entry [where fieldLookup = sampleLookup, OF h2] by (simp add: checkComparisonOperator_def tokenOf_def)
  have h8: "fieldType ?entry \<in> {FieldType_String, FieldType_Integer, FieldType_DateTime,
           FieldType_PlainText, FieldType_Html, FieldType_TreePath, FieldType_History,
           FieldType_Double, FieldType_Guid, FieldType_Boolean}"
    by simp
  show ?thesis
    using h2 h7 literal_value_type_rule
        [where fieldLookup = sampleLookup and x = sampleExternals, OF h1 h2 h3 h4 h5 h6 h7 h8]
    by (simp add: sampleExternals_def fieldRef_def tokenOf_def)
qed

section \<open>Group conditions\<close>

text \<open>Every decoration of the value check marks the value checked.\<close>

lemma checkRhsValue_marks:
  assumes "checkRhsValue x v ty = Inr ds" and "d \<in> set ds"
  shows "marked d = val v"
  using assms
  by (cases "asVariable (val v)")
     (auto simp: checkRhsValue_def Let_def split: if_splits option.splits FieldType.splits)

lemma checkRhsGroup_loop_marks:
  "checkRhsGroup_loop x vl ty errors = Inr ds \<Longrightarrow> d \<in> set ds \<Longrightarrow>
     d \<in> set errors \<or> marked d \<in> set (listSymbols vl)"
proof (induction x vl ty errors rule: checkRhsGroup_loop.induct)
  case (1 x expectedType errors)
  then show ?case by simp
next
  case (2 x v restOfList expectedType errors)
  show ?case
  proof (cases "instanceof_Field (val v)")
    case True
    with 2 show ?thesis by auto
  next
    case False
    then obtain vs where vs: "checkRhsValue x v expectedType = Inr vs"
      using "2.prems"(1) by (cases "checkRhsValue x v expectedType") simp_all
    with False "2.prems" have "checkRhsGroup_loop x restOfList expectedType (errors @ vs) = Inr ds"
      by simp
    from "2.IH"(2) [OF False vs this "2.prems"(2)]
    show ?thesis
      using checkRhsValue_marks [OF vs] by auto
  qed
qed

text \<open>
  C2 (as amended). For a group condition (an in-operator and a value list, and no scalar
  form) on a field of the lookup, \<^verbatim>\<open>check\<close> runs the check of the list's elements
  first and the check of the group operator second: the decorations of the list's elements,
  each marking a value of the list, come first in the result, and the decoration of the
  group operator, if any, comes after them. If the check of the list raises, so does
  \<^verbatim>\<open>check\<close>.
\<close>

theorem group_condition_order:
  assumes "cond_field c = Some fld"
    and "fieldLookup (toLocaleLowerCase x (tokenText (ident fld))) = Some (Some entry)"
    and "conditionalOperator c = None \<or> cond_value c = None"
    and "valueList c = Some vl"
    and "inOperator c = Some inOp"
  shows "check_condition x fieldLookup c =
     (case checkRhsGroup x vl (Some (fieldType entry)) of
        Inl e \<Rightarrow> Inl e
      | Inr listErrors \<Rightarrow>
          Inr (listErrors @
               (if group entry = [] then
                  [toDecoration (Tok inOp)
                     (tokenText (ident fld) @ '' does not support group comparisons'')]
                else if cls inOp \<notin> set (group entry) then
                  [toDecoration (Tok inOp)
                     (''Valid comparisons are '' @
                        join '', '' (map (getSymbolName x) (group entry)))]
                else [])))
     \<and> (\<forall>listErrors. checkRhsGroup x vl (Some (fieldType entry)) = Inr listErrors \<longrightarrow>
           (\<forall>d \<in> set listErrors. marked d \<in> set (listSymbols (Some vl))))"
proof -
  have allows: "checkAllowsGroup x fieldLookup inOp fld =
      Inr (if group entry = [] then
                  [toDecoration (Tok inOp)
                     (tokenText (ident fld) @ '' does not support group comparisons'')]
                else if cls inOp \<notin> set (group entry) then
                  [toDecoration (Tok inOp)
                     (''Valid comparisons are '' @
                        join '', '' (map (getSymbolName x) (group entry)))]
                else [])"
    using lookup_read_entry [where fieldLookup = fieldLookup, OF assms(2)]
    by (auto simp: checkAllowsGroup_def Let_def filter_empty_conv)
  have body: "check_condition x fieldLookup c =
      (case checkRhsGroup x vl (Some (fieldType entry)) of
         Inl e \<Rightarrow> Inl e
       | Inr groupErrors \<Rightarrow>
           (case checkAllowsGroup x fieldLookup inOp fld of
              Inl e \<Rightarrow> Inl e
            | Inr allowErrors \<Rightarrow> Inr (groupErrors @ allowErrors)))"
    using assms(1,3-5) key_in_lookup_own [where fieldLookup = fieldLookup, OF assms(2)] lookup_read_entry [where fieldLookup = fieldLookup, OF assms(2)]
    by (cases "conditionalOperator c"; cases "cond_value c")
       (simp_all add: check_condition_def)
  have marks: "\<forall>listErrors. checkRhsGroup x vl (Some (fieldType entry)) = Inr listErrors \<longrightarrow>
           (\<forall>d \<in> set listErrors. marked d \<in> set (listSymbols (Some vl)))"
    using checkRhsGroup_loop_marks [of x "Some vl" "Some (fieldType entry)" "[]"]
    by (auto simp: checkRhsGroup_def)
  have "check_condition x fieldLookup c =
     (case checkRhsGroup x vl (Some (fieldType entry)) of
        Inl e \<Rightarrow> Inl e
      | Inr listErrors \<Rightarrow>
          Inr (listErrors @
               (if group entry = [] then
                  [toDecoration (Tok inOp)
                     (tokenText (ident fld) @ '' does not support group comparisons'')]
                else if cls inOp \<notin> set (group entry) then
                  [toDecoration (Tok inOp)
                     (''Valid comparisons are '' @
                        join '', '' (map (getSymbolName x) (group entry)))]
                else [])))"
    unfolding body allows by (cases "checkRhsGroup x vl (Some (fieldType entry))") simp_all
  from this marks show ?thesis by (rule conjI)
qed

theorem group_condition_order_witness:
  "sampleLookup (toLocaleLowerCase sampleExternals ''Active'')
     = Some (Some \<lparr>fieldType = FieldType_Boolean,
         literal = [Symbols_Equals, Symbols_NotEquals, Symbols_Ever],
         field = [Symbols_Equals, Symbols_NotEquals],
         group = []\<rparr>)
   \<and> check_condition sampleExternals sampleLookup cond_active_in_list =
     Inr [toDecoration (Fld (fieldRef ''Size'' 19)) ''Values in list must be literals'',
          toDecoration (Tok (tokenOf Symbols_String ''x'' 24)) ''Expected value of type BOOLEAN'',
          toDecoration (Tok (tokenOf Symbols_In ''In'' 11))
            ''Active does not support group comparisons'']"
proof -
  let ?entry = "\<lparr>fieldType = FieldType_Boolean,
         literal = [Symbols_Equals, Symbols_NotEquals, Symbols_Ever],
         field = [Symbols_Equals, Symbols_NotEquals],
         group = []\<rparr>"
  let ?vl = "ValueList \<lparr>val = Fld (fieldRef ''Size'' 19)\<rparr>
          (Some (ValueList \<lparr>val = Tok (tokenOf Symbols_String ''x'' 24)\<rparr> None))"
  have h1: "cond_field cond_active_in_list = Some (fieldRef ''Active'' 8)"
    by (simp add: cond_active_in_list_def groupCondition_def)
  have h2: "sampleLookup (toLocaleLowerCase sampleExternals (tokenText (ident (fieldRef ''Active'' 8))))
      = Some (Some ?entry)"
    by (simp add: sampleLookup_def sampleFields_def getFieldComparisonLookup_def
          lookup_assign_def
          sampleExternals_def fieldRef_def tokenOf_def compTypes_def)
  have h3: "conditionalOperator cond_active_in_list = None \<or> cond_value cond_active_in_list = None"
    by (simp add: cond_active_in_list_def groupCondition_def)
  have h4: "valueList cond_active_in_list = Some ?vl"
    by (simp add: cond_active_in_list_def groupCondition_def)
  have h5: "inOperator cond_active_in_list = Some (tokenOf Symbols_In ''In'' 11)"
    by (simp add: cond_active_in_list_def groupCondition_def)
  have list: "checkRhsGroup sampleExternals ?vl (Some FieldType_Boolean) =
     Inr [toDecoration (Fld (fieldRef ''Size'' 19)) ''Values in list must be literals'',
          toDecoration (Tok (tokenOf Symbols_String ''x'' 24)) ''Expected value of type BOOLEAN'']"
    by (simp add: checkRhsGroup_def checkRhsValue_def tokenOf_def)
  show ?thesis
    using h2 list group_condition_order
        [where fieldLookup = sampleLookup and x = sampleExternals, OF h1 h2 h3 h4 h5]
    by (simp add: fieldRef_def tokenOf_def)
qed

text \<open>
  The order first claimed (group operator, then list) fails on
  \<^verbatim>\<open>[Active] In ([Size], 'x')\<close>, with Active of type Boolean.
\<close>

theorem group_condition_order_counterexample:
  "check sampleExternals sampleLookup [cond_active_in_list] [] =
     Inr [toDecoration (Fld (fieldRef ''Size'' 19)) ''Values in list must be literals'',
          toDecoration (Tok (tokenOf Symbols_String ''x'' 24)) ''Expected value of type BOOLEAN'',
          toDecoration (Tok (tokenOf Symbols_In ''In'' 11))
            ''Active does not support group comparisons'']
   \<and> check sampleExternals sampleLookup [cond_active_in_list] [] \<noteq>
     Inr [toDecoration (Tok (tokenOf Symbols_In ''In'' 11))
            ''Active does not support group comparisons'',
          toDecoration (Fld (fieldRef ''Size'' 19)) ''Values in list must be literals'',
          toDecoration (Tok (tokenOf Symbols_String ''x'' 24)) ''Expected value of type BOOLEAN'']"
  by (simp add: check_def check_condition_def checkRhsGroup_def checkRhsValue_def
        checkAllowsGroup_def cond_active_in_list_def sample_simps)

section \<open>The value check\<close>

text \<open>
  C8. When \<^verbatim>\<open>checkRhsValue\<close> receives a value that is not a variable and an expected
  field type that is none of the ten types of its \<^verbatim>\<open>switch\<close>, it raises
  \<^verbatim>\<open>Unexpected field type\<close>: no list of decorations is returned.
\<close>

theorem checkRhsValue_unhandled_type_raises:
  assumes "asVariable (val v) = None"
    and "expectedType \<notin> {FieldType_String, FieldType_Integer, FieldType_DateTime,
           FieldType_PlainText, FieldType_Html, FieldType_TreePath, FieldType_History,
           FieldType_Double, FieldType_Guid, FieldType_Boolean}"
  shows "checkRhsValue x v (Some expectedType) = Inl (UnexpectedFieldType (Some expectedType))"
  using assms by (cases expectedType) (simp_all add: checkRhsValue_def)

theorem checkRhsValue_unhandled_type_raises_witness:
  "asVariable (val \<lparr>val = Tok \<lparr>cls = Symbols_String, tokenText = ''abc'', endColumn = 12\<rparr>\<rparr>) = None
   \<and> FieldType_Other 10 \<notin> {FieldType_String, FieldType_Integer, FieldType_DateTime,
           FieldType_PlainText, FieldType_Html, FieldType_TreePath, FieldType_History,
           FieldType_Double, FieldType_Guid, FieldType_Boolean}
   \<and> checkRhsValue sampleExternals
         \<lparr>val = Tok \<lparr>cls = Symbols_String, tokenText = ''abc'', endColumn = 12\<rparr>\<rparr>
         (Some (FieldType_Other 10)) = Inl (UnexpectedFieldType (Some (FieldType_Other 10)))"
  using checkRhsValue_unhandled_type_raises
    [of "\<lparr>val = Tok \<lparr>cls = Symbols_String, tokenText = ''abc'', endColumn = 12\<rparr>\<rparr>"
        "FieldType_Other 10" sampleExternals]
  by simp

text \<open>
  C10. For a value that is a variable whose lower-cased name is not a key of
  \<^verbatim>\<open>definedVariables\<close>, \<^verbatim>\<open>checkRhsValue\<close> does not raise, whatever the expected type:
  \<^verbatim>\<open>mapType(undefined)\<close> is the string class, so the result is the empty list when the
  expected type is neither Integer nor Double, and the one decoration
  \<^verbatim>\<open>Expected value of type\<close> (with the name of the number class) when it is.
\<close>

theorem checkRhsValue_undefined_variable:
  assumes "asVariable (val v) = Some var"
    and "map_of (definedVariables x) (toLocaleLowerCase x (tokenText var)) = None"
  shows "checkRhsValue x v (Some expectedType) =
           Inr (if expectedType = FieldType_Integer \<or> expectedType = FieldType_Double
                then [toDecoration (val v)
                        (''Expected value of type '' @ getSymbolName x Symbols_Number)]
                else [])"
  using assms by (cases expectedType) (simp_all add: checkRhsValue_def)

theorem checkRhsValue_undefined_variable_witness:
  "asVariable (val \<lparr>val = Tok \<lparr>cls = Symbols_Variable, tokenText = ''@Nobody'', endColumn = 30\<rparr>\<rparr>)
     = Some \<lparr>cls = Symbols_Variable, tokenText = ''@Nobody'', endColumn = 30\<rparr>
   \<and> map_of (definedVariables sampleExternals)
        (toLocaleLowerCase sampleExternals ''@Nobody'') = None
   \<and> checkRhsValue sampleExternals
        \<lparr>val = Tok \<lparr>cls = Symbols_Variable, tokenText = ''@Nobody'', endColumn = 30\<rparr>\<rparr>
        (Some FieldType_Double)
      = Inr [toDecoration (Tok \<lparr>cls = Symbols_Variable, tokenText = ''@Nobody'', endColumn = 30\<rparr>)
               ''Expected value of type NUMBER'']
   \<and> checkRhsValue sampleExternals
        \<lparr>val = Tok \<lparr>cls = Symbols_Variable, tokenText = ''@Nobody'', endColumn = 30\<rparr>\<rparr>
        (Some FieldType_Guid) = Inr []
   \<and> checkRhsValue sampleExternals
        \<lparr>val = Tok \<lparr>cls = Symbols_Variable, tokenText = ''@Nobody'', endColumn = 30\<rparr>\<rparr>
        (Some (FieldType_Other 10)) = Inr []"
  using checkRhsValue_undefined_variable
    [of "\<lparr>val = Tok \<lparr>cls = Symbols_Variable, tokenText = ''@Nobody'', endColumn = 30\<rparr>\<rparr>"
        "\<lparr>cls = Symbols_Variable, tokenText = ''@Nobody'', endColumn = 30\<rparr>" sampleExternals]
  by (simp add: sampleExternals_def)

section \<open>The link type field in the lookup\<close>

lemma getFieldComparisonLookup_loop_append:
  "getFieldComparisonLookup_loop x (flds @ flds') fieldLookup =
     getFieldComparisonLookup_loop x flds' (getFieldComparisonLookup_loop x flds fieldLookup)"
  by (induction flds arbitrary: fieldLookup) simp_all

text \<open>Later fields that write other keys leave the entry of the link type in place.\<close>

lemma getFieldComparisonLookup_loop_keeps:
  assumes "\<forall>g \<in> set flds. referenceName g \<noteq> ''System.Links.LinkType'' \<longrightarrow>
             toLocaleLowerCase x (name g) \<noteq> k \<and> toLocaleLowerCase x (referenceName g) \<noteq> k"
    and "fieldLookup k = Some (Some linkTypeComparison)"
  shows "getFieldComparisonLookup_loop x flds fieldLookup k = Some (Some linkTypeComparison)"
  using assms
proof (induction flds arbitrary: fieldLookup)
  case Nil
  then show ?case by simp
next
  case (Cons g flds)
  show ?case
  proof (cases "''System.Links.LinkType'' = referenceName g")
    case True
    have "getFieldComparisonLookup_loop x flds
            (lookup_assign
              (lookup_assign fieldLookup
                 (toLocaleLowerCase x (referenceName g)) (Some linkTypeComparison))
              (toLocaleLowerCase x (name g)) (Some linkTypeComparison)) k
          = Some (Some linkTypeComparison)"
      using Cons.prems by (intro Cons.IH) (simp_all add: lookup_assign_def)
    with True show ?thesis by simp
  next
    case False
    have "getFieldComparisonLookup_loop x flds
            (lookup_assign
              (lookup_assign fieldLookup
                 (toLocaleLowerCase x (referenceName g)) (compTypes (type g)))
              (toLocaleLowerCase x (name g)) (compTypes (type g))) k
          = Some (Some linkTypeComparison)"
      using Cons.prems False by (intro Cons.IH) (auto simp: lookup_assign_other)
    with False show ?thesis by simp
  qed
qed

text \<open>
  C5 (as amended). For a field list that contains a field whose reference name is
  \<^verbatim>\<open>System.Links.LinkType\<close>, the lookup maps that field's lower-cased display name and
  lower-cased reference name to the entry with type String, literal operators Equals and
  NotEquals and no field or group operator, whatever the table holds for String,
  provided that no later field of the list with another reference name has a lower-cased
  display name or reference name equal to one of these two keys. (A later field writes
  over the keys it shares: the last write wins.)
\<close>

theorem link_type_lookup:
  assumes "flds = before @ f # after"
    and "referenceName f = ''System.Links.LinkType''"
    and "\<forall>g \<in> set after. referenceName g \<noteq> ''System.Links.LinkType'' \<longrightarrow>
           toLocaleLowerCase x (name g) \<notin>
             {toLocaleLowerCase x (name f), toLocaleLowerCase x (referenceName f)}
         \<and> toLocaleLowerCase x (referenceName g) \<notin>
             {toLocaleLowerCase x (name f), toLocaleLowerCase x (referenceName f)}"
  shows "getFieldComparisonLookup x flds (toLocaleLowerCase x (name f)) =
           Some (Some \<lparr>fieldType = FieldType_String,
                        literal = [Symbols_Equals, Symbols_NotEquals],
                        field = [], group = []\<rparr>)
       \<and> getFieldComparisonLookup x flds (toLocaleLowerCase x (referenceName f)) =
           Some (Some \<lparr>fieldType = FieldType_String,
                        literal = [Symbols_Equals, Symbols_NotEquals],
                        field = [], group = []\<rparr>)"
proof -
  let ?m = "getFieldComparisonLookup_loop x before Map.empty"
  let ?m' = "lookup_assign
               (lookup_assign ?m (toLocaleLowerCase x (referenceName f)) (Some linkTypeComparison))
               (toLocaleLowerCase x (name f)) (Some linkTypeComparison)"
  have run: "getFieldComparisonLookup x flds = getFieldComparisonLookup_loop x after ?m'"
    using assms(2)
    by (simp add: getFieldComparisonLookup_def lookup_assign_def assms(1)
          getFieldComparisonLookup_loop_append)
  have "getFieldComparisonLookup_loop x after ?m' (toLocaleLowerCase x (name f))
          = Some (Some linkTypeComparison)"
    using assms(3) by (intro getFieldComparisonLookup_loop_keeps) (auto simp: lookup_assign_def)
  moreover have "getFieldComparisonLookup_loop x after ?m' (toLocaleLowerCase x (referenceName f))
          = Some (Some linkTypeComparison)"
    using assms(3) by (intro getFieldComparisonLookup_loop_keeps) (auto simp: lookup_assign_def)
  ultimately show ?thesis
    unfolding run by (simp add: linkTypeComparison_def)
qed

theorem link_type_lookup_witness:
  "toLocaleLowerCase sampleExternals ''Effort'' \<notin> {''link type'', ''system.links.linktype''}
   \<and> toLocaleLowerCase sampleExternals ''Custom.Effort''
         \<notin> {''link type'', ''system.links.linktype''}
   \<and> getFieldComparisonLookup sampleExternals
       [\<lparr>name = ''Title'', referenceName = ''System.Title'', type = FieldType_String\<rparr>,
        \<lparr>name = ''Link Type'', referenceName = ''System.Links.LinkType'', type = FieldType_String\<rparr>,
        \<lparr>name = ''Effort'', referenceName = ''Custom.Effort'', type = FieldType_Double\<rparr>]
       ''link type'' =
        Some (Some \<lparr>fieldType = FieldType_String,
                     literal = [Symbols_Equals, Symbols_NotEquals], field = [], group = []\<rparr>)
   \<and> getFieldComparisonLookup sampleExternals
       [\<lparr>name = ''Title'', referenceName = ''System.Title'', type = FieldType_String\<rparr>,
        \<lparr>name = ''Link Type'', referenceName = ''System.Links.LinkType'', type = FieldType_String\<rparr>,
        \<lparr>name = ''Effort'', referenceName = ''Custom.Effort'', type = FieldType_Double\<rparr>]
       ''system.links.linktype'' =
        Some (Some \<lparr>fieldType = FieldType_String,
                     literal = [Symbols_Equals, Symbols_NotEquals], field = [], group = []\<rparr>)
   \<and> compTypes FieldType_String \<noteq>
        Some \<lparr>fieldType = FieldType_String,
               literal = [Symbols_Equals, Symbols_NotEquals], field = [], group = []\<rparr>"
proof -
  let ?f = "\<lparr>name = ''Link Type'', referenceName = ''System.Links.LinkType'',
          type = FieldType_String\<rparr>"
  let ?before = "[\<lparr>name = ''Title'', referenceName = ''System.Title'', type = FieldType_String\<rparr>]"
  let ?after = "[\<lparr>name = ''Effort'', referenceName = ''Custom.Effort'', type = FieldType_Double\<rparr>]"
  have lc: "toLocaleLowerCase sampleExternals ''Link Type'' = ''link type''"
       "toLocaleLowerCase sampleExternals ''System.Links.LinkType'' = ''system.links.linktype''"
    by (simp_all add: sampleExternals_def)
  have h1: "?before @ ?f # ?after = ?before @ ?f # ?after"
    by simp
  have h2: "referenceName ?f = ''System.Links.LinkType''"
    by simp
  have h3: "\<forall>g \<in> set ?after. referenceName g \<noteq> ''System.Links.LinkType'' \<longrightarrow>
           toLocaleLowerCase sampleExternals (name g) \<notin>
             {toLocaleLowerCase sampleExternals (name ?f),
              toLocaleLowerCase sampleExternals (referenceName ?f)}
         \<and> toLocaleLowerCase sampleExternals (referenceName g) \<notin>
             {toLocaleLowerCase sampleExternals (name ?f),
              toLocaleLowerCase sampleExternals (referenceName ?f)}"
    by (simp add: sampleExternals_def)
  have other: "compTypes FieldType_String \<noteq>
        Some \<lparr>fieldType = FieldType_String,
               literal = [Symbols_Equals, Symbols_NotEquals], field = [], group = []\<rparr>"
    by (simp add: compTypes_def)
  show ?thesis
    using h3 other link_type_lookup [where x = sampleExternals, OF h1 h2 h3]
    by (simp add: lc)
qed

text \<open>
  Without the proviso the claim fails: a later field with the display name of the link type
  field takes over the key of that name.
\<close>

theorem link_type_lookup_counterexample:
  "getFieldComparisonLookup sampleExternals
     [\<lparr>name = ''Link Type'', referenceName = ''System.Links.LinkType'', type = FieldType_String\<rparr>,
      \<lparr>name = ''Link Type'', referenceName = ''Custom.LinkKind'', type = FieldType_Integer\<rparr>]
     (toLocaleLowerCase sampleExternals ''Link Type'')
   = Some (Some \<lparr>fieldType = FieldType_Integer,
        literal = [Symbols_Equals, Symbols_NotEquals, Symbols_GreaterThan, Symbols_LessThan,
          Symbols_GreaterOrEq, Symbols_LessOrEq, Symbols_Ever],
        field = [Symbols_Equals, Symbols_NotEquals, Symbols_GreaterThan, Symbols_LessThan,
          Symbols_GreaterOrEq, Symbols_LessOrEq],
        group = [Symbols_In]\<rparr>)
   \<and> getFieldComparisonLookup sampleExternals
     [\<lparr>name = ''Link Type'', referenceName = ''System.Links.LinkType'', type = FieldType_String\<rparr>,
      \<lparr>name = ''Link Type'', referenceName = ''Custom.LinkKind'', type = FieldType_Integer\<rparr>]
     (toLocaleLowerCase sampleExternals ''Link Type'')
   \<noteq> Some (Some \<lparr>fieldType = FieldType_String,
                   literal = [Symbols_Equals, Symbols_NotEquals], field = [], group = []\<rparr>)"
  by (simp add: getFieldComparisonLookup_def lookup_assign_def sampleExternals_def compTypes_def)

section \<open>Variable suggestions\<close>

text \<open>The loop pushes one suggestion per key that passes the filter, in the order of the keys.\<close>

lemma getStandardVariableSuggestions_loop_eq:
  "getStandardVariableSuggestions_loop x ty keys suggestions =
     suggestions @
     map (\<lambda>v. \<lparr>label = v, kind = CompletionItemKind_Variable, insertText = None\<rparr>)
       (filter (\<lambda>v. ty = None \<or> map_of (definedVariables x) v = ty) keys)"
  by (induction keys arbitrary: suggestions) simp_all

lemma getStandardVariableSuggestions_eq:
  "getStandardVariableSuggestions x ty =
     map (\<lambda>v. \<lparr>label = v, kind = CompletionItemKind_Variable, insertText = None\<rparr>)
       (filter (\<lambda>v. ty = None \<or> map_of (definedVariables x) v = ty)
          (map fst (definedVariables x)))"
  by (simp add: getStandardVariableSuggestions_def getStandardVariableSuggestions_loop_eq)

text \<open>
  C6 (as amended). \<^verbatim>\<open>includeVariables\<close> appends the variable suggestions to the given
  sequence if and only if the expected tokens contain the name of the variable symbol and
  the previous token is not a group symbol. The suggestions appended are the declared
  variables whose type equals the context's field type when the cursor is in a condition
  and that field type is not \<^verbatim>\<open>null\<close>, and all declared variables otherwise (also in a
  condition whose field type is \<^verbatim>\<open>null\<close>).
\<close>

theorem includeVariables_appends:
  "includeVariables x ctx suggestions =
     suggestions @
     (if getSymbolName x Symbols_Variable \<in> set (expectedTokens ctx)
         \<and> \<not> prevToken_instanceof ctx Symbols_Group
      then map (\<lambda>v. \<lparr>label = v, kind = CompletionItemKind_Variable, insertText = None\<rparr>)
             (filter (\<lambda>v. isInCondition ctx \<and> ctx_fieldType ctx \<noteq> None
                            \<longrightarrow> map_of (definedVariables x) v = ctx_fieldType ctx)
                (map fst (definedVariables x)))
      else [])"
proof -
  have "(\<lambda>v. (if isInCondition ctx then ctx_fieldType ctx else None) = None
              \<or> map_of (definedVariables x) v
                   = (if isInCondition ctx then ctx_fieldType ctx else None))
        = (\<lambda>v. isInCondition ctx \<and> ctx_fieldType ctx \<noteq> None
                  \<longrightarrow> map_of (definedVariables x) v = ctx_fieldType ctx)"
    by auto
  then show ?thesis
    by (simp add: includeVariables_def getStandardVariableSuggestions_eq)
qed

theorem includeVariables_appends_witness:
  "includeVariables sampleExternals
     \<lparr>expectedTokens = [''NUMBER'', ''VARIABLE''],
      prevToken = Some (tokenOf Symbols_Equals ''='' 20),
      isInCondition = True, ctx_fieldType = Some FieldType_DateTime\<rparr>
     [\<lparr>label = ''[Any]'', kind = CompletionItemKind_Other 0, insertText = None\<rparr>]
   = [\<lparr>label = ''[Any]'', kind = CompletionItemKind_Other 0, insertText = None\<rparr>,
      \<lparr>label = ''@today'', kind = CompletionItemKind_Variable, insertText = None\<rparr>]
   \<and> includeVariables sampleExternals
     \<lparr>expectedTokens = [''NUMBER'', ''VARIABLE''],
      prevToken = Some (tokenOf Symbols_Group ''Group'' 20),
      isInCondition = True, ctx_fieldType = Some FieldType_DateTime\<rparr>
     [\<lparr>label = ''[Any]'', kind = CompletionItemKind_Other 0, insertText = None\<rparr>]
   = [\<lparr>label = ''[Any]'', kind = CompletionItemKind_Other 0, insertText = None\<rparr>]
   \<and> includeVariables sampleExternals
     \<lparr>expectedTokens = [''NUMBER'', ''VARIABLE''],
      prevToken = Some (tokenOf Symbols_Equals ''='' 20),
      isInCondition = False, ctx_fieldType = Some FieldType_DateTime\<rparr>
     []
   = [\<lparr>label = ''@me'', kind = CompletionItemKind_Variable, insertText = None\<rparr>,
      \<lparr>label = ''@today'', kind = CompletionItemKind_Variable, insertText = None\<rparr>]"
  using includeVariables_appends [of sampleExternals
     "\<lparr>expectedTokens = [''NUMBER'', ''VARIABLE''],
      prevToken = Some (tokenOf Symbols_Equals ''='' 20),
      isInCondition = True, ctx_fieldType = Some FieldType_DateTime\<rparr>"
     "[\<lparr>label = ''[Any]'', kind = CompletionItemKind_Other 0, insertText = None\<rparr>]"]
    includeVariables_appends [of sampleExternals
     "\<lparr>expectedTokens = [''NUMBER'', ''VARIABLE''],
      prevToken = Some (tokenOf Symbols_Group ''Group'' 20),
      isInCondition = True, ctx_fieldType = Some FieldType_DateTime\<rparr>"
     "[\<lparr>label = ''[Any]'', kind = CompletionItemKind_Other 0, insertText = None\<rparr>]"]
    includeVariables_appends [of sampleExternals
     "\<lparr>expectedTokens = [''NUMBER'', ''VARIABLE''],
      prevToken = Some (tokenOf Symbols_Equals ''='' 20),
      isInCondition = False, ctx_fieldType = Some FieldType_DateTime\<rparr>"
     "[]"]
  by (simp add: sampleExternals_def prevToken_instanceof_def tokenOf_def)

text \<open>
  In a condition whose field type is \<^verbatim>\<open>null\<close> every variable is suggested, though no
  variable has that type.
\<close>

theorem includeVariables_appends_counterexample:
  "includeVariables sampleExternals
     \<lparr>expectedTokens = [''VARIABLE''],
      prevToken = Some (tokenOf Symbols_Equals ''='' 20),
      isInCondition = True, ctx_fieldType = None\<rparr>
     []
   = [\<lparr>label = ''@me'', kind = CompletionItemKind_Variable, insertText = None\<rparr>,
      \<lparr>label = ''@today'', kind = CompletionItemKind_Variable, insertText = None\<rparr>]
   \<and> filter (\<lambda>v. map_of (definedVariables sampleExternals) v
                    = ctx_fieldType \<lparr>expectedTokens = [''VARIABLE''],
                         prevToken = Some (tokenOf Symbols_Equals ''='' 20),
                         isInCondition = True, ctx_fieldType = None\<rparr>)
        (map fst (definedVariables sampleExternals)) = []"
  by (simp add: includeVariables_def getStandardVariableSuggestions_def sampleExternals_def
        prevToken_instanceof_def tokenOf_def)

text \<open>
  C7. \<^verbatim>\<open>getCurrentVariableSuggestions\<close> returns a list and not \<^verbatim>\<open>null\<close> if and only if
  the previous token is a variable token and the cursor's column, less one, is that
  token's end column. The list then has one suggestion per declared variable that passes
  the type filter; its label is the variable's name as declared, with the \<open>@\<close>, and its
  insertion text is the label with the first \<open>@\<close> removed: for a label \<open>@\<close>\<open>rest\<close> it is
  \<open>rest\<close>. In every other case the result is \<^verbatim>\<open>null\<close>, not the empty list.
\<close>

theorem getCurrentVariableSuggestions_result:
  "(getCurrentVariableSuggestions x ctx position \<noteq> None) =
     (\<exists>t. prevToken ctx = Some t \<and> cls t = Symbols_Variable
          \<and> column position - 1 = endColumn t)
   \<and> (\<forall>items. getCurrentVariableSuggestions x ctx position = Some items \<longrightarrow>
        map label items =
          filter (\<lambda>v. isInCondition ctx \<and> ctx_fieldType ctx \<noteq> None
                         \<longrightarrow> map_of (definedVariables x) v = ctx_fieldType ctx)
            (map fst (definedVariables x))
        \<and> (\<forall>s \<in> set items.
              kind s = CompletionItemKind_Variable
            \<and> insertText s = Some (replace_at (label s))
            \<and> (\<forall>rest. label s = CHR ''@'' # rest \<longrightarrow> insertText s = Some rest)))"
proof -
  let ?ty = "if isInCondition ctx then ctx_fieldType ctx else None"
  have filt: "(\<lambda>v. ?ty = None \<or> map_of (definedVariables x) v = ?ty)
        = (\<lambda>v. isInCondition ctx \<and> ctx_fieldType ctx \<noteq> None
                  \<longrightarrow> map_of (definedVariables x) v = ctx_fieldType ctx)"
    by auto
  have applies: "(getCurrentVariableSuggestions x ctx position \<noteq> None) =
     (\<exists>t. prevToken ctx = Some t \<and> cls t = Symbols_Variable
          \<and> column position - 1 = endColumn t)"
    by (cases "prevToken ctx") (simp_all add: getCurrentVariableSuggestions_def)
  have items: "map label items =
          filter (\<lambda>v. isInCondition ctx \<and> ctx_fieldType ctx \<noteq> None
                         \<longrightarrow> map_of (definedVariables x) v = ctx_fieldType ctx)
            (map fst (definedVariables x))
        \<and> (\<forall>s \<in> set items.
              kind s = CompletionItemKind_Variable
            \<and> insertText s = Some (replace_at (label s))
            \<and> (\<forall>rest. label s = CHR ''@'' # rest \<longrightarrow> insertText s = Some rest))"
    if some: "getCurrentVariableSuggestions x ctx position = Some items" for items
  proof -
    from some have eq: "items =
        map (\<lambda>s. \<lparr>label = label s, kind = CompletionItemKind_Variable,
                   insertText = Some (replace_at (label s))\<rparr>)
          (getStandardVariableSuggestions x ?ty)"
      by (cases "prevToken ctx")
         (auto simp: getCurrentVariableSuggestions_def split: if_splits)
    show ?thesis
      unfolding eq getStandardVariableSuggestions_eq filt
      by (auto simp: comp_def)
  qed
  show ?thesis
    using applies items by blast
qed

theorem getCurrentVariableSuggestions_result_witness:
  "getCurrentVariableSuggestions sampleExternals
     \<lparr>expectedTokens = [], prevToken = Some (tokenOf Symbols_Variable ''@to'' 20),
      isInCondition = True, ctx_fieldType = Some FieldType_DateTime\<rparr>
     \<lparr>column = 21\<rparr>
   = Some [\<lparr>label = ''@today'', kind = CompletionItemKind_Variable, insertText = Some ''today''\<rparr>]
   \<and> getCurrentVariableSuggestions sampleExternals
     \<lparr>expectedTokens = [], prevToken = Some (tokenOf Symbols_Variable ''@to'' 20),
      isInCondition = True, ctx_fieldType = Some FieldType_DateTime\<rparr>
     \<lparr>column = 22\<rparr>
   = None"
proof -
  let ?ctx = "\<lparr>expectedTokens = [], prevToken = Some (tokenOf Symbols_Variable ''@to'' 20),
      isInCondition = True, ctx_fieldType = Some FieldType_DateTime\<rparr>"
  have at_end: "\<exists>items. getCurrentVariableSuggestions sampleExternals ?ctx \<lparr>column = 21\<rparr> = Some items"
    using getCurrentVariableSuggestions_result [of sampleExternals ?ctx "\<lparr>column = 21\<rparr>"]
    by (simp add: tokenOf_def)
  then obtain items where
    items: "getCurrentVariableSuggestions sampleExternals ?ctx \<lparr>column = 21\<rparr> = Some items"
    by blast
  have labels: "map label items = [''@today'']"
    and each: "\<forall>s \<in> set items. kind s = CompletionItemKind_Variable
            \<and> (\<forall>rest. label s = CHR ''@'' # rest \<longrightarrow> insertText s = Some rest)"
    using items getCurrentVariableSuggestions_result [of sampleExternals ?ctx "\<lparr>column = 21\<rparr>"]
    by (simp_all add: sampleExternals_def)
  from labels obtain s where s: "items = [s]" "label s = ''@today''"
    by (cases items) auto
  with each have "kind s = CompletionItemKind_Variable" "insertText s = Some ''today''"
    by simp_all
  with s have "items =
      [\<lparr>label = ''@today'', kind = CompletionItemKind_Variable, insertText = Some ''today''\<rparr>]"
    by (cases s) simp
  moreover have "getCurrentVariableSuggestions sampleExternals ?ctx \<lparr>column = 22\<rparr> = None"
    using getCurrentVariableSuggestions_result [of sampleExternals ?ctx "\<lparr>column = 22\<rparr>"]
    by (simp add: tokenOf_def)
  ultimately show ?thesis
    using items by simp
qed

end
